theory Spec2Isabelle
  imports Main "HOL-Library.Word"
begin

unbundle bit_operations_syntax

section \<open>libdex/OptInvocation.c: the cache file name and the empty opt header\<close>

text \<open>
  A C string is modelled by the list of its characters before the terminating NUL, so
  \<open>length\<close> is \<open>strlen\<close> and a string of \<open>n\<close> characters occupies \<open>n + 1\<close> bytes of
  an array. A pointer that may be NULL is a \<open>string option\<close>.
\<close>

subsection \<open>Outcomes\<close>

text \<open>
  \<open>ReturnNull\<close>: the function returns NULL.
  \<open>Undefined\<close>: the function stores past the end of one of its 512-byte arrays, or reads
  bytes of one that were never written; C gives no meaning to what follows.
\<close>

datatype stop = ReturnNull | Undefined

subsection \<open>The library calls, as the function uses them\<close>

text \<open>\<open>char nameBuf[512]\<close>, \<open>char absoluteFile[sizeof(nameBuf)]\<close>,
  \<open>kBufLen = sizeof(nameBuf) - 1\<close>.\<close>

definition sizeof_nameBuf :: nat where
  "sizeof_nameBuf = 512"

definition kBufLen :: nat where
  "kBufLen = sizeof_nameBuf - 1"

definition kDexCachePath :: string where
  "kDexCachePath = ''dalvik-cache''"

text \<open>
  \<open>strncat(dst, src, n)\<close> appends the first \<open>n\<close> characters of \<open>src\<close> (all of it when it
  is shorter) and a NUL to the string in \<open>dst\<close>. The bound \<open>n\<close> is on what is taken from
  \<open>src\<close>, not on the size of \<open>dst\<close>: \<open>cap\<close> is the size of the array behind \<open>dst\<close>, and
  a result that needs more than \<open>cap\<close> bytes is stored past its end.
\<close>

definition strncat :: "nat \<Rightarrow> string \<Rightarrow> string \<Rightarrow> nat \<Rightarrow> stop + string" where
  "strncat cap dst src n =
     (let r = dst @ take n src
      in if cap < length r + 1 then Inl Undefined else Inr r)"

text \<open>
  \<open>getcwd(buf, size)\<close>: NULL when the working directory cannot be determined (\<open>None\<close>)
  or when its name and the NUL do not fit in \<open>size\<close> bytes (ERANGE).
\<close>

definition getcwd :: "string option \<Rightarrow> nat \<Rightarrow> string option" where
  "getcwd wd sz =
     (case wd of
        None \<Rightarrow> None
      | Some d \<Rightarrow> if sz < length d + 1 then None else Some d)"

text \<open>\<open>snprintf(buf, size, "%s/%s", a, b)\<close> stores at most \<open>size - 1\<close> characters and a NUL.\<close>

definition snprintf_path :: "nat \<Rightarrow> string \<Rightarrow> string \<Rightarrow> string" where
  "snprintf_path sz a b = take (sz - 1) (a @ ''/'' @ b)"

text \<open>\<open>strncmp(a, b, n) == 0\<close> on C strings: the first \<open>n\<close> characters agree (a string
  shorter than \<open>n\<close> ends the comparison at its NUL).\<close>

definition strncmp_eq :: "string \<Rightarrow> string \<Rightarrow> nat \<Rightarrow> bool" where
  "strncmp_eq a b n = (take n a = take n b)"

text \<open>\<open>property_get(key, value, default_value)\<close> of libcutils: the value of the property,
  or the default when the property is not set or is empty.\<close>

definition property_get :: "(string \<rightharpoonup> string) \<Rightarrow> string \<Rightarrow> string \<Rightarrow> string" where
  "property_get props key default_value =
     (case props key of
        None \<Rightarrow> default_value
      | Some v \<Rightarrow> if v = [] then default_value else v)"

subsection \<open>What the function reads from the process\<close>

text \<open>
  \<open>environ\<close>: the environment, read by \<open>getenv\<close>. \<open>properties\<close>: the system properties.
  \<open>cwd\<close>: the working directory, \<open>None\<close> when it cannot be determined.
  \<open>dexRoot_slot\<close>: the content of the local variable \<open>dexRoot\<close> when the function is
  entered. The declaration \<open>const char* dexRoot;\<close> has no initialiser, so this is whatever
  the stack holds: NULL (\<open>None\<close>) or a pointer to some characters.
  \<open>malloc_ok n\<close>: whether an allocation of \<open>n\<close> bytes succeeds.
\<close>

record process =
  environ :: "string \<rightharpoonup> string"
  properties :: "string \<rightharpoonup> string"
  cwd :: "string option"
  dexRoot_slot :: "string option"
  malloc_ok :: "nat \<Rightarrow> bool"

definition strdup :: "process \<Rightarrow> string \<Rightarrow> stop + string" where
  "strdup w s = (if malloc_ok w (length s + 1) then Inr s else Inl ReturnNull)"

subsection \<open>dexOptGenerateCacheFileName\<close>

text \<open>Lines 64 to 87: the absolute path of the file, with the entry name appended.\<close>

definition absolutePath :: "process \<Rightarrow> string \<Rightarrow> string option \<Rightarrow> stop + string" where
  "absolutePath w fileName subFileName =
     (case (if take 1 fileName \<noteq> ''/'' then
              (case getcwd (cwd w) kBufLen of
                 None \<Rightarrow> Inl ReturnNull
               | Some d \<Rightarrow> strncat sizeof_nameBuf d ''/'' kBufLen)
            else Inr []) of
        Inl e \<Rightarrow> Inl e
      | Inr a1 \<Rightarrow>
          (case strncat sizeof_nameBuf a1 fileName kBufLen of
             Inl e \<Rightarrow> Inl e
           | Inr a2 \<Rightarrow>
               (case subFileName of
                  None \<Rightarrow> Inr a2
                | Some sub \<Rightarrow>
                    (case strncat sizeof_nameBuf a2 ''/'' kBufLen of
                       Inl e \<Rightarrow> Inl e
                     | Inr a3 \<Rightarrow> strncat sizeof_nameBuf a3 sub kBufLen))))"

text \<open>Lines 92 to 98: the loop \<open>while (*cp != '\0') { if (*cp == '/') *cp = '@'; cp++; }\<close>
  from \<open>cp\<close> on.\<close>

fun slashes_to_at :: "string \<Rightarrow> string" where
  "slashes_to_at [] = []"
| "slashes_to_at (c # cs) = (if c = CHR ''/'' then CHR ''@'' else c) # slashes_to_at cs"

text \<open>The loop starts at \<open>absoluteFile + 1\<close>: on an empty string that is the byte after
  the NUL, which nothing has written.\<close>

definition flatten :: "string \<Rightarrow> stop + string" where
  "flatten a = (case a of [] \<Rightarrow> Inl Undefined | c # cs \<Rightarrow> Inr (c # slashes_to_at cs))"

text \<open>Lines 64 to 98: the content of \<open>absoluteFile\<close> after the loop, the flat file name.\<close>

definition absoluteFile :: "process \<Rightarrow> string \<Rightarrow> string option \<Rightarrow> stop + string" where
  "absoluteFile w fileName subFileName =
     (case absolutePath w fileName subFileName of
        Inl e \<Rightarrow> Inl e
      | Inr a \<Rightarrow> flatten a)"

text \<open>Lines 104 to 116: the roots from the environment, with their defaults.\<close>

definition cacheRoot :: "process \<Rightarrow> string" where
  "cacheRoot w = (case environ w ''ANDROID_CACHE'' of None \<Rightarrow> ''/cache'' | Some v \<Rightarrow> v)"

definition dataRoot :: "process \<Rightarrow> string" where
  "dataRoot w = (case environ w ''ANDROID_DATA'' of None \<Rightarrow> ''/data'' | Some v \<Rightarrow> v)"

definition systemRoot :: "process \<Rightarrow> string" where
  "systemRoot w = (case environ w ''ANDROID_ROOT'' of None \<Rightarrow> ''/system'' | Some v \<Rightarrow> v)"

text \<open>
  Lines 118 to 133: the value of \<open>dexRoot\<close> when the cache path is composed. Line 118 is
  the first mention of \<open>dexRoot\<close> after its declaration: it compares the variable with
  NULL and stores the literal \<open>"/data"\<close> when it is. \<open>dataRoot\<close> is not used.
\<close>

definition dexRoot :: "process \<Rightarrow> string \<Rightarrow> string" where
  "dexRoot w flat =
     (let r0 = (case dexRoot_slot w of None \<Rightarrow> ''/data'' | Some g \<Rightarrow> g);
          r1 = (if strncmp_eq flat (systemRoot w) (length (systemRoot w)) then
                  (if property_get (properties w) ''dalvik.vm.dexopt-data-only'' [] \<noteq> ''1''
                   then cacheRoot w else r0)
                else r0);
          r2 = (if property_get (properties w) ''dalvik.vm.dexopt-cache-only'' [] = ''1''
                then cacheRoot w else r1)
      in r2)"

text \<open>Lines 64 to 139: the content of \<open>nameBuf\<close> when it is handed to \<open>strdup\<close>.\<close>

definition nameBuf :: "process \<Rightarrow> string \<Rightarrow> string option \<Rightarrow> stop + string" where
  "nameBuf w fileName subFileName =
     (case absoluteFile w fileName subFileName of
        Inl e \<Rightarrow> Inl e
      | Inr flat \<Rightarrow>
          strncat sizeof_nameBuf
            (snprintf_path kBufLen (dexRoot w flat) kDexCachePath) flat kBufLen)"

definition dexOptGenerateCacheFileName ::
    "process \<Rightarrow> string \<Rightarrow> string option \<Rightarrow> stop + string" where
  "dexOptGenerateCacheFileName w fileName subFileName =
     (case nameBuf w fileName subFileName of
        Inl e \<Rightarrow> Inl e
      | Inr nb \<Rightarrow> strdup w nb)"

text \<open>A process with no environment overrides and no property set, in \<open>/home/user\<close>,
  whose stack holds NULL where \<open>dexRoot\<close> lives and whose allocations succeed.\<close>

definition plain :: process where
  "plain = \<lparr>environ = Map.empty, properties = Map.empty, cwd = Some ''/home/user'',
            dexRoot_slot = None, malloc_ok = (\<lambda>n. True)\<rparr>"

subsection \<open>dexOptCreateEmptyHeader\<close>

type_synonym byte = "8 word"

text \<open>
  \<open>DexOptHeader\<close> is declared in DexFile.h. What the function uses of it is its size, the
  place of the \<open>u4\<close> field \<open>dexOffset\<close> in it, and the byte order of the machine: they are
  parameters here.
\<close>

record DexOptHeader_layout =
  sizeof_optHdr :: nat
  offsetof_dexOffset :: nat
  big_endian :: bool

definition u4_bytes :: "bool \<Rightarrow> 32 word \<Rightarrow> byte list" where
  "u4_bytes be v =
     (let le = [ucast v, ucast (drop_bit 8 v), ucast (drop_bit 16 v), ucast (drop_bit 24 v)]
      in if be then rev le else le)"

definition u4_value :: "bool \<Rightarrow> byte list \<Rightarrow> 32 word" where
  "u4_value be bs =
     (let le = (if be then rev bs else bs)
      in foldr (\<lambda>b acc. ucast b OR push_bit 8 acc) le 0)"

text \<open>\<open>memset(&optHdr, 0xff, sizeof(optHdr)); optHdr.dexOffset = sizeof(optHdr);\<close>\<close>

definition memset :: "nat \<Rightarrow> byte \<Rightarrow> byte list" where
  "memset n v = replicate n v"

definition store_u4 :: "bool \<Rightarrow> byte list \<Rightarrow> nat \<Rightarrow> 32 word \<Rightarrow> byte list" where
  "store_u4 be buf off v = take off buf @ u4_bytes be v @ drop (off + 4) buf"

definition load_u4 :: "bool \<Rightarrow> byte list \<Rightarrow> nat \<Rightarrow> 32 word" where
  "load_u4 be buf off = u4_value be (take 4 (drop off buf))"

definition optHdr :: "DexOptHeader_layout \<Rightarrow> byte list" where
  "optHdr lay =
     store_u4 (big_endian lay) (memset (sizeof_optHdr lay) 0xff)
       (offsetof_dexOffset lay) (of_nat (sizeof_optHdr lay))"

text \<open>
  The file behind \<open>fd\<close> and \<open>errno\<close>. One call of \<open>write\<close> either transfers some bytes
  (all that were asked for, or fewer) and leaves \<open>errno\<close> alone, or fails: it returns -1
  and stores the error code in \<open>errno\<close>.
\<close>

record sys =
  errno :: int
  file_bytes :: "byte list"
  file_offset :: nat

datatype write_result = Transferred nat | Failed int

definition sys_write :: "write_result \<Rightarrow> byte list \<Rightarrow> nat \<Rightarrow> sys \<Rightarrow> int \<times> sys" where
  "sys_write r buf count s =
     (case r of
        Failed e \<Rightarrow> (- 1, s\<lparr>errno := e\<rparr>)
      | Transferred k \<Rightarrow>
          (let n = min k count;
               old = file_bytes s @ replicate (file_offset s - length (file_bytes s)) 0
           in (int n,
               s\<lparr>file_bytes := take (file_offset s) old @ take n buf
                                 @ drop (file_offset s + n) old,
                 file_offset := file_offset s + n\<rparr>)))"

text \<open>
  \<open>Aborted\<close>: one of the two assertions failed. \<open>Returned r s\<close>: the function returned
  \<open>r\<close> and left the file and \<open>errno\<close> as in \<open>s\<close>. The comparison
  \<open>actual != sizeof(optHdr)\<close> is between the count that \<open>write\<close> returned and the size
  of the record; the logging call of line 175 is taken to leave \<open>errno\<close> as it was.
\<close>

datatype ret = Aborted | Returned int sys

definition dexOptCreateEmptyHeader :: "DexOptHeader_layout \<Rightarrow> write_result \<Rightarrow> sys \<Rightarrow> ret" where
  "dexOptCreateEmptyHeader lay r s =
     (if file_offset s \<noteq> 0 then Aborted
      else if sizeof_optHdr lay AND 0x07 \<noteq> 0 then Aborted
      else
        (let (actual, s') = sys_write r (optHdr lay) (sizeof_optHdr lay) s
         in if actual \<noteq> int (sizeof_optHdr lay) then
              (let err = (if errno s' \<noteq> 0 then errno s' else - 1)
               in Returned (errno s') s')
            else Returned 0 s'))"

text \<open>The layout of the header in Dalvik's DexFile.h: eight bytes of magic and eight
  \<open>u4\<close> fields, \<open>dexOffset\<close> the first of them, on a little-endian machine.\<close>

definition dalvik_layout :: DexOptHeader_layout where
  "dalvik_layout = \<lparr>sizeof_optHdr = 40, offsetof_dexOffset = 8, big_endian = False\<rparr>"

definition fresh_file :: sys where
  "fresh_file = \<lparr>errno = 0, file_bytes = [], file_offset = 0\<rparr>"

subsection \<open>The path the function means to assemble\<close>

text \<open>
  The whole concatenation, nothing cut: the working directory and a separator when the
  file name is relative, the file name, and a separator and the entry name when there is
  one. \<open>None\<close> when the working directory is needed and cannot be determined.
\<close>

definition assembled :: "process \<Rightarrow> string \<Rightarrow> string option \<Rightarrow> string option" where
  "assembled w fileName subFileName =
     (case (if take 1 fileName \<noteq> ''/'' then map_option (\<lambda>d. d @ ''/'') (cwd w)
            else Some []) of
        None \<Rightarrow> None
      | Some pre \<Rightarrow>
          Some (pre @ fileName
                @ (case subFileName of None \<Rightarrow> [] | Some sub \<Rightarrow> ''/'' @ sub)))"

text \<open>The working directory, when there is one, is the absolute path that \<open>getcwd\<close>
  is specified to return.\<close>

definition cwd_is_absolute :: "process \<Rightarrow> bool" where
  "cwd_is_absolute w = (case cwd w of None \<Rightarrow> True | Some d \<Rightarrow> take 1 d = ''/'')"

text \<open>Both properties set to \<open>1\<close>.\<close>

definition both_flags :: process where
  "both_flags = plain\<lparr>properties :=
     [''dalvik.vm.dexopt-data-only'' \<mapsto> ''1'', ''dalvik.vm.dexopt-cache-only'' \<mapsto> ''1'']\<rparr>"

text \<open>No working directory, and no allocation succeeds.\<close>

definition no_memory :: process where
  "no_memory = plain\<lparr>cwd := None, malloc_ok := (\<lambda>n. False)\<rparr>"

section \<open>Properties of the cache file name\<close>

subsection \<open>The bounded calls and the loop\<close>

lemma slashes_to_at_map:
  "slashes_to_at cs = map (\<lambda>c. if c = CHR ''/'' then CHR ''@'' else c) cs"
  by (induction cs) simp_all

lemma slashes_to_at_none: "CHR ''/'' \<notin> set (slashes_to_at cs)"
  by (induction cs) simp_all

lemma slashes_to_at_id: "CHR ''/'' \<notin> set cs \<Longrightarrow> slashes_to_at cs = cs"
  by (induction cs) auto

lemma length_slashes_to_at: "length (slashes_to_at cs) = length cs"
  by (induction cs) simp_all

lemma take1_slash: "take 1 s = ''/'' \<longleftrightarrow> (\<exists>t. s = CHR ''/'' # t)"
  by (cases s) auto

subsection \<open>Lines 64 to 87\<close>

lemma absolutePath_within:
  assumes "assembled w fileName subFileName = Some path" and "length path \<le> kBufLen"
  shows "absolutePath w fileName subFileName = Inr path"
  using assms
  by (auto simp: absolutePath_def assembled_def strncat_def getcwd_def kBufLen_def
      sizeof_nameBuf_def Let_def split: option.splits if_splits)

lemma assembled_nonempty: "assembled w fileName subFileName = Some path \<Longrightarrow> path \<noteq> []"
  by (auto simp: assembled_def take1_slash split: option.splits if_splits)

lemma absolutePath_absolute:
  assumes "take 1 fileName = ''/''"
  shows "absolutePath w fileName None = Inr (take kBufLen fileName)"
  using assms
  by (auto simp: absolutePath_def strncat_def kBufLen_def sizeof_nameBuf_def Let_def)

lemma absolutePath_shape:
  assumes "absolutePath w fileName subFileName = Inr a"
  shows "\<exists>rest. a = (if take 1 fileName \<noteq> ''/'' then the (cwd w) @ ''/'' else [])
                    @ take kBufLen fileName @ rest"
  using assms
  by (auto simp: absolutePath_def strncat_def getcwd_def Let_def
      split: option.splits if_splits sum.splits)

lemma absolutePath_cwd:
  assumes "absolutePath w fileName subFileName = Inr a" and "take 1 fileName \<noteq> ''/''"
  shows "\<exists>d. cwd w = Some d"
  using assms
  by (auto simp: absolutePath_def strncat_def getcwd_def Let_def
      split: option.splits if_splits sum.splits)

subsection \<open>The flat name\<close>

text \<open>
  Claim C6. Whenever lines 64 to 98 produce a flat name, its first character is the
  separator and the separator occurs nowhere after it: the slashes of the working
  directory, of the file name and the one put before the entry name are all replaced by
  \<open>@\<close>. The working directory, where there is one, is an absolute path, as \<open>getcwd\<close>
  returns it.
\<close>

theorem flat_name_separators:
  assumes "absoluteFile w fileName subFileName = Inr p"
    and "cwd_is_absolute w"
  shows "p \<noteq> [] \<and> hd p = CHR ''/'' \<and> CHR ''/'' \<notin> set (tl p)"
proof -
  from assms(1) obtain a
    where a: "absolutePath w fileName subFileName = Inr a" and f: "flatten a = Inr p"
    by (auto simp: absoluteFile_def split: sum.splits)
  from f obtain c cs where acs: "a = c # cs" and p: "p = c # slashes_to_at cs"
    by (auto simp: flatten_def split: list.splits)
  have "c = CHR ''/''"
  proof (cases "take 1 fileName = ''/''")
    case True
    then obtain t where "fileName = CHR ''/'' # t" using take1_slash by blast
    with absolutePath_shape [OF a] True acs show ?thesis
      by (auto simp: kBufLen_def sizeof_nameBuf_def)
  next
    case False
    from absolutePath_cwd [OF a False] obtain d where d: "cwd w = Some d" by blast
    with assms(2) have "take 1 d = ''/''" by (simp add: cwd_is_absolute_def)
    then obtain t where "d = CHR ''/'' # t" using take1_slash by blast
    with absolutePath_shape [OF a] False acs d show ?thesis by auto
  qed
  with p show ?thesis by (simp add: slashes_to_at_none)
qed

theorem flat_name_separators_witness:
  "absoluteFile plain ''foo.dex'' (Some ''classes.dex'') = Inr ''/home@user@foo.dex@classes.dex''
   \<and> cwd_is_absolute plain
   \<and> hd ''/home@user@foo.dex@classes.dex'' = CHR ''/''
   \<and> CHR ''/'' \<notin> set (tl ''/home@user@foo.dex@classes.dex'')"
proof -
  have h1: "absoluteFile plain ''foo.dex'' (Some ''classes.dex'')
            = Inr ''/home@user@foo.dex@classes.dex''"
    by (simp add: absoluteFile_def absolutePath_def flatten_def strncat_def getcwd_def
        plain_def kBufLen_def sizeof_nameBuf_def)
  have h2: "cwd_is_absolute plain"
    by (simp add: cwd_is_absolute_def plain_def)
  from flat_name_separators [OF h1 h2] h1 h2 show ?thesis by simp
qed

lemma flatten_Cons: "a \<noteq> [] \<Longrightarrow> flatten a = Inr (hd a # slashes_to_at (tl a))"
  by (cases a) (simp_all add: flatten_def)

lemma absoluteFile_nonempty: "absoluteFile w fileName subFileName = Inr flat \<Longrightarrow> flat \<noteq> []"
  by (auto simp: absoluteFile_def flatten_def split: sum.splits list.splits)

text \<open>
  Claim C7, as the code has it. An absolute file name of at most \<open>kBufLen\<close> (511)
  characters whose only separator is the leading one, given with no entry name, is its
  own flat name: the working directory is not consulted, nothing is appended and the
  loop changes nothing. A longer name is cut to its first 511 characters by line 77.
\<close>

theorem single_component_unchanged:
  assumes "take 1 P = ''/''" and "CHR ''/'' \<notin> set (tl P)" and "length P \<le> kBufLen"
  shows "absoluteFile w P None = Inr P"
proof -
  from assms(1) obtain t where t: "P = CHR ''/'' # t" using take1_slash by blast
  with assms(2) have "slashes_to_at t = t" by (simp add: slashes_to_at_id)
  with absolutePath_absolute [OF assms(1), of w] assms(3) t show ?thesis
    by (simp add: absoluteFile_def flatten_def)
qed

theorem single_component_unchanged_witness:
  "take 1 ''/foo.dex'' = ''/'' \<and> CHR ''/'' \<notin> set (tl ''/foo.dex'') \<and> length ''/foo.dex'' \<le> kBufLen
   \<and> absoluteFile plain ''/foo.dex'' None = Inr ''/foo.dex''"
proof -
  have h1: "take 1 ''/foo.dex'' = ''/''" by simp
  have h2: "CHR ''/'' \<notin> set (tl ''/foo.dex'')" by simp
  have h3: "length ''/foo.dex'' \<le> kBufLen" by (simp add: kBufLen_def sizeof_nameBuf_def)
  from single_component_unchanged [OF h1 h2 h3, of plain] h1 h2 h3 show ?thesis by simp
qed

text \<open>A name of 601 characters, one separator in front: the flat name is its first 511
  characters, not the name.\<close>

theorem single_component_long_counterexample:
  "take 1 (CHR ''/'' # replicate 600 (CHR ''b'')) = ''/''
   \<and> CHR ''/'' \<notin> set (tl (CHR ''/'' # replicate 600 (CHR ''b'')))
   \<and> absoluteFile plain (CHR ''/'' # replicate 600 (CHR ''b'')) None
       = Inr (CHR ''/'' # replicate 510 (CHR ''b''))
   \<and> CHR ''/'' # replicate 510 (CHR ''b'') \<noteq> CHR ''/'' # replicate 600 (CHR ''b'')"
  by (simp add: absoluteFile_def absolutePath_def flatten_def strncat_def kBufLen_def
      sizeof_nameBuf_def slashes_to_at_id replicate_eq_replicate)

subsection \<open>Lines 135 to 139\<close>

lemma nameBuf_within:
  assumes "absoluteFile w fileName subFileName = Inr flat"
    and "length (dexRoot w flat @ ''/'' @ kDexCachePath @ flat) \<le> kBufLen"
  shows "nameBuf w fileName subFileName = Inr (dexRoot w flat @ ''/'' @ kDexCachePath @ flat)"
proof -
  let ?pre = "dexRoot w flat @ ''/'' @ kDexCachePath"
  from assms(1) have "flat \<noteq> []" by (rule absoluteFile_nonempty)
  then have "1 \<le> length flat" by (cases flat) simp_all
  with assms(2) have "length ?pre \<le> kBufLen - 1" by simp
  then have sp: "snprintf_path kBufLen (dexRoot w flat) kDexCachePath = ?pre"
    by (simp add: snprintf_path_def)
  from assms(2) have "strncat sizeof_nameBuf ?pre flat kBufLen = Inr (?pre @ flat)"
    by (simp add: strncat_def kBufLen_def sizeof_nameBuf_def)
  with sp assms(1) show ?thesis by (simp add: nameBuf_def)
qed

text \<open>
  Claim C3, as the code has it. No call of the function reports that a path is too long.
  When the assembled path has at most \<open>kBufLen\<close> (511) characters the flat name is the
  whole of it, nothing cut, and when the root, \<open>/dalvik-cache\<close> and the flat name
  together have at most 511 characters \<open>nameBuf\<close> holds the whole composition. An
  absolute file name given with no entry name is never refused: its flat name is made of
  its first 511 characters, whatever its length.
\<close>

theorem no_truncation_within_kBufLen:
  assumes "assembled w fileName subFileName = Some path"
    and "flat = hd path # slashes_to_at (tl path)"
    and "composed = dexRoot w flat @ ''/'' @ kDexCachePath @ flat"
  shows "(length path \<le> kBufLen \<longrightarrow>
            absoluteFile w fileName subFileName = Inr flat
            \<and> (length composed \<le> kBufLen \<longrightarrow> nameBuf w fileName subFileName = Inr composed))
         \<and> (take 1 fileName = ''/'' \<and> subFileName = None \<longrightarrow>
              absoluteFile w fileName subFileName
              = Inr (hd path # slashes_to_at (tl (take kBufLen path))))"
proof (intro conjI impI)
  assume le: "length path \<le> kBufLen"
  show af: "absoluteFile w fileName subFileName = Inr flat"
    using absolutePath_within [OF assms(1) le] assembled_nonempty [OF assms(1)] assms(2)
    by (simp add: absoluteFile_def flatten_Cons)
  assume "length composed \<le> kBufLen"
  with nameBuf_within [OF af] assms(3) show "nameBuf w fileName subFileName = Inr composed"
    by simp
next
  assume "take 1 fileName = ''/'' \<and> subFileName = None"
  then have ab: "take 1 fileName = ''/''" and sub: "subFileName = None" by simp_all
  from ab obtain t where t: "fileName = CHR ''/'' # t" using take1_slash by blast
  from assms(1) ab sub have path: "path = fileName" by (simp add: assembled_def)
  show "absoluteFile w fileName subFileName = Inr (hd path # slashes_to_at (tl (take kBufLen path)))"
    using absolutePath_absolute [OF ab, of w] sub path t
    by (simp add: absoluteFile_def flatten_def kBufLen_def sizeof_nameBuf_def)
qed

theorem no_truncation_within_kBufLen_witness:
  "assembled plain ''/data/app/foo.apk'' (Some ''classes.dex'') = Some ''/data/app/foo.apk/classes.dex''
   \<and> length ''/data/app/foo.apk/classes.dex'' \<le> kBufLen
   \<and> length ''/data/dalvik-cache/data@app@foo.apk@classes.dex'' \<le> kBufLen
   \<and> absoluteFile plain ''/data/app/foo.apk'' (Some ''classes.dex'') = Inr ''/data@app@foo.apk@classes.dex''
   \<and> nameBuf plain ''/data/app/foo.apk'' (Some ''classes.dex'')
       = Inr ''/data/dalvik-cache/data@app@foo.apk@classes.dex''
   \<and> assembled plain ''/a/b'' None = Some ''/a/b''
   \<and> absoluteFile plain ''/a/b'' None = Inr ''/a@b''"
proof -
  have h1: "assembled plain ''/data/app/foo.apk'' (Some ''classes.dex'') = Some ''/data/app/foo.apk/classes.dex''"
    by (simp add: assembled_def)
  have h2: "assembled plain ''/a/b'' None = Some ''/a/b''"
    by (simp add: assembled_def)
  have r: "dexRoot plain ''/data@app@foo.apk@classes.dex'' = ''/data''"
    by (simp add: dexRoot_def plain_def strncmp_eq_def systemRoot_def property_get_def)
  show ?thesis
    using no_truncation_within_kBufLen [OF h1 refl refl] no_truncation_within_kBufLen [OF h2 refl refl] h1 h2 r
    by (simp add: kBufLen_def sizeof_nameBuf_def kDexCachePath_def)
qed

text \<open>A name of 701 characters: the flat name is returned, made of its first 511.\<close>

theorem long_name_is_cut_counterexample:
  "assembled plain (CHR ''/'' # replicate 700 (CHR ''a'')) None
     = Some (CHR ''/'' # replicate 700 (CHR ''a''))
   \<and> sizeof_nameBuf < length (CHR ''/'' # replicate 700 (CHR ''a''))
   \<and> absoluteFile plain (CHR ''/'' # replicate 700 (CHR ''a'')) None
       = Inr (CHR ''/'' # replicate 510 (CHR ''a''))"
  by (simp add: assembled_def absoluteFile_def absolutePath_def flatten_def strncat_def
      kBufLen_def sizeof_nameBuf_def slashes_to_at_id)

subsection \<open>The root\<close>

text \<open>
  Claim C5. When the property \<open>dalvik.vm.dexopt-cache-only\<close> is \<open>1\<close>, the root is
  \<open>cacheRoot\<close>, whatever the flat name, the other property and the rest of the process
  are: line 132 is the last assignment to \<open>dexRoot\<close>.
\<close>

theorem cache_only_selects_cacheRoot:
  assumes "properties w ''dalvik.vm.dexopt-cache-only'' = Some ''1''"
  shows "dexRoot w flat = cacheRoot w"
  using assms by (simp add: dexRoot_def property_get_def Let_def)

theorem cache_only_selects_cacheRoot_witness:
  "properties both_flags ''dalvik.vm.dexopt-cache-only'' = Some ''1''
   \<and> properties both_flags ''dalvik.vm.dexopt-data-only'' = Some ''1''
   \<and> dexRoot both_flags ''/system@app@bar.apk'' = ''/cache''"
proof -
  have h: "properties both_flags ''dalvik.vm.dexopt-cache-only'' = Some ''1''"
    by (simp add: both_flags_def)
  have d: "properties both_flags ''dalvik.vm.dexopt-data-only'' = Some ''1''"
    by (simp add: both_flags_def)
  have c: "cacheRoot both_flags = ''/cache''"
    by (simp add: cacheRoot_def both_flags_def plain_def)
  from cache_only_selects_cacheRoot [OF h, of "''/system@app@bar.apk''"] h d c
  show ?thesis by simp
qed

text \<open>
  Claim C2. The value of \<open>dexRoot\<close> that the function uses depends on what the variable
  held when the function was entered: line 118 reads it before anything is stored in it,
  and stores \<open>"/data"\<close> only when it finds NULL there.
\<close>

theorem dexRoot_read_before_assigned:
  "dexRoot (plain\<lparr>dexRoot_slot := Some ''/garbage''\<rparr>) ''/data@app@foo.apk'' = ''/garbage''
   \<and> dexRoot plain ''/data@app@foo.apk'' = ''/data''"
  by (simp add: dexRoot_def systemRoot_def property_get_def strncmp_eq_def plain_def)

text \<open>
  Claim C4. With \<open>ANDROID_DATA\<close> set to \<open>/mnt/data\<close>, no property set and a file that
  is not under \<open>systemRoot\<close>, the root is the literal \<open>/data\<close> of line 119 and not
  \<open>dataRoot\<close>: the function computes \<open>dataRoot\<close> and never uses it.
\<close>

theorem dataRoot_not_selected:
  "dataRoot (plain\<lparr>environ := [''ANDROID_DATA'' \<mapsto> ''/mnt/data'']\<rparr>) = ''/mnt/data''
   \<and> dexRoot (plain\<lparr>environ := [''ANDROID_DATA'' \<mapsto> ''/mnt/data'']\<rparr>) ''/data@app@foo.apk''
       = ''/data''"
  by (simp add: dexRoot_def dataRoot_def systemRoot_def property_get_def strncmp_eq_def plain_def)

subsection \<open>The whole function\<close>

lemma absolutePath_ignores_cwd:
  "take 1 fileName = ''/'' \<Longrightarrow>
     absolutePath (w\<lparr>cwd := d\<rparr>) fileName subFileName = absolutePath w fileName subFileName"
  by (simp add: absolutePath_def)

lemma roots_ignore_cwd:
  "cacheRoot (w\<lparr>cwd := d\<rparr>) = cacheRoot w" "systemRoot (w\<lparr>cwd := d\<rparr>) = systemRoot w"
  by (simp_all add: cacheRoot_def systemRoot_def)

lemma dexRoot_ignores_cwd: "dexRoot (w\<lparr>cwd := d\<rparr>) flat = dexRoot w flat"
  by (simp add: dexRoot_def roots_ignore_cwd Let_def)

lemma absolutePath_absolute_not_null:
  "take 1 fileName = ''/'' \<Longrightarrow> absolutePath w fileName subFileName \<noteq> Inl ReturnNull"
  by (auto simp: absolutePath_def strncat_def Let_def split: option.splits sum.splits if_splits)

lemma nameBuf_absolute_not_null:
  assumes "take 1 fileName = ''/''"
  shows "nameBuf w fileName subFileName \<noteq> Inl ReturnNull"
  using absolutePath_absolute_not_null [OF assms, where w = w and subFileName = subFileName]
  by (auto simp: nameBuf_def absoluteFile_def flatten_def strncat_def Let_def
      split: sum.splits list.splits if_splits)

text \<open>
  Claim C10. For a file name that starts with the separator the result does not depend
  on the working directory, also not on whether there is one, and the function returns
  NULL exactly when lines 64 to 139 have filled \<open>nameBuf\<close> and the allocation of
  \<open>strdup\<close> at line 142 fails.
\<close>

theorem absolute_input_null_only_from_strdup:
  assumes "take 1 fileName = ''/''"
  shows "dexOptGenerateCacheFileName (w\<lparr>cwd := d\<rparr>) fileName subFileName
           = dexOptGenerateCacheFileName w fileName subFileName
         \<and> (dexOptGenerateCacheFileName w fileName subFileName = Inl ReturnNull
              \<longleftrightarrow> (\<exists>nb. nameBuf w fileName subFileName = Inr nb \<and> \<not> malloc_ok w (length nb + 1)))"
proof
  show "dexOptGenerateCacheFileName (w\<lparr>cwd := d\<rparr>) fileName subFileName
          = dexOptGenerateCacheFileName w fileName subFileName"
    using absolutePath_ignores_cwd [OF assms, where w = w and d = d and subFileName = subFileName]
    by (simp add: dexOptGenerateCacheFileName_def nameBuf_def absoluteFile_def
        dexRoot_ignores_cwd strdup_def cong: sum.case_cong)
  show "dexOptGenerateCacheFileName w fileName subFileName = Inl ReturnNull
          \<longleftrightarrow> (\<exists>nb. nameBuf w fileName subFileName = Inr nb \<and> \<not> malloc_ok w (length nb + 1))"
    using nameBuf_absolute_not_null [OF assms, where w = w and subFileName = subFileName]
    by (auto simp: dexOptGenerateCacheFileName_def strdup_def split: sum.splits)
qed

theorem absolute_input_null_only_from_strdup_witness:
  "take 1 ''/data/app/foo.apk'' = ''/''
   \<and> dexOptGenerateCacheFileName no_memory ''/data/app/foo.apk'' None = Inl ReturnNull
   \<and> nameBuf no_memory ''/data/app/foo.apk'' None = Inr ''/data/dalvik-cache/data@app@foo.apk''
   \<and> \<not> malloc_ok no_memory (length ''/data/dalvik-cache/data@app@foo.apk'' + 1)
   \<and> dexOptGenerateCacheFileName (plain\<lparr>cwd := None\<rparr>) ''/data/app/foo.apk'' None
       = dexOptGenerateCacheFileName plain ''/data/app/foo.apk'' None"
proof -
  have h: "take 1 ''/data/app/foo.apk'' = ''/''" by simp
  have n: "nameBuf no_memory ''/data/app/foo.apk'' None = Inr ''/data/dalvik-cache/data@app@foo.apk''"
    by (simp add: nameBuf_def absoluteFile_def absolutePath_def flatten_def strncat_def
        snprintf_path_def dexRoot_def systemRoot_def property_get_def strncmp_eq_def
        kDexCachePath_def kBufLen_def sizeof_nameBuf_def no_memory_def plain_def)
  have m: "\<not> malloc_ok no_memory (length ''/data/dalvik-cache/data@app@foo.apk'' + 1)"
    by (simp add: no_memory_def)
  from absolute_input_null_only_from_strdup [OF h, where w = no_memory and subFileName = None]
    absolute_input_null_only_from_strdup [OF h, where w = plain and d = None and subFileName = None]
    h n m
  show ?thesis by auto
qed

text \<open>
  Claim C9. With no environment overrides and no property set, \<open>/data/app/foo.apk\<close>
  and \<open>classes.dex\<close> give the flat name \<open>/data@app@foo.apk@classes.dex\<close>; the root,
  and with it the cache path, is what the uninitialised \<open>dexRoot\<close> held if that was not
  NULL.
\<close>

theorem cache_name_depends_on_uninitialised_dexRoot:
  "dexOptGenerateCacheFileName (plain\<lparr>dexRoot_slot := Some ''/garbage''\<rparr>)
       ''/data/app/foo.apk'' (Some ''classes.dex'')
     = Inr ''/garbage/dalvik-cache/data@app@foo.apk@classes.dex''"
  by (simp add: dexOptGenerateCacheFileName_def strdup_def nameBuf_def absoluteFile_def
      absolutePath_def flatten_def strncat_def
      snprintf_path_def dexRoot_def systemRoot_def property_get_def strncmp_eq_def
      kDexCachePath_def kBufLen_def sizeof_nameBuf_def plain_def)

text \<open>When the variable happens to hold NULL, the path is the one under \<open>/data\<close>.\<close>

lemma cache_name_when_slot_is_null:
  "dexOptGenerateCacheFileName plain ''/data/app/foo.apk'' (Some ''classes.dex'')
     = Inr ''/data/dalvik-cache/data@app@foo.apk@classes.dex''
   \<and> absoluteFile plain ''/data/app/foo.apk'' (Some ''classes.dex'')
     = Inr ''/data@app@foo.apk@classes.dex''"
  by (simp add: dexOptGenerateCacheFileName_def strdup_def nameBuf_def absoluteFile_def
      absolutePath_def flatten_def strncat_def
      snprintf_path_def dexRoot_def systemRoot_def property_get_def strncmp_eq_def
      kDexCachePath_def kBufLen_def sizeof_nameBuf_def plain_def)

section \<open>Properties of the empty header\<close>

lemma nat_and_7: "(n::nat) AND 7 = n mod 8"
proof -
  have "n AND mask 3 = n mod 2 ^ 3"
    by (simp only: take_bit_eq_mask [symmetric] take_bit_eq_mod)
  then show ?thesis by (simp add: mask_eq_exp_minus_1)
qed

lemma length_u4_bytes: "length (u4_bytes be v) = 4"
  by (simp add: u4_bytes_def Let_def)

lemma u4_value_u4_bytes: "u4_value be (u4_bytes be v) = v"
  unfolding u4_value_def u4_bytes_def
  apply (simp add: Let_def bit_eq_iff bit_simps)
  apply (intro allI impI)
  subgoal for n by (cases "n < 8"; cases "n < 16"; cases "n < 24"; auto)
  done

lemma length_store_u4:
  "off + 4 \<le> length buf \<Longrightarrow> length (store_u4 be buf off v) = length buf"
  by (simp add: store_u4_def length_u4_bytes)

lemma load_store_u4:
  "off + 4 \<le> length buf \<Longrightarrow> load_u4 be (store_u4 be buf off v) off = v"
  by (simp add: load_u4_def store_u4_def length_u4_bytes u4_value_u4_bytes)

lemma store_u4_elsewhere:
  assumes "off + 4 \<le> length buf" and "i < length buf" and "i < off \<or> off + 4 \<le> i"
  shows "store_u4 be buf off v ! i = buf ! i"
proof (cases "i < off")
  case True
  with assms(1) show ?thesis by (simp add: store_u4_def nth_append)
next
  case False
  with assms have "off + 4 \<le> i" by simp
  with assms(1,2) show ?thesis
    by (auto simp: store_u4_def nth_append length_u4_bytes)
qed

lemma length_optHdr:
  "offsetof_dexOffset lay + 4 \<le> sizeof_optHdr lay \<Longrightarrow> length (optHdr lay) = sizeof_optHdr lay"
  by (simp add: optHdr_def memset_def length_store_u4)

lemma optHdr_dexOffset:
  assumes "offsetof_dexOffset lay + 4 \<le> sizeof_optHdr lay" and "sizeof_optHdr lay < 2 ^ 32"
  shows "unat (load_u4 (big_endian lay) (optHdr lay) (offsetof_dexOffset lay)) = sizeof_optHdr lay"
proof -
  from assms(1) have "load_u4 (big_endian lay) (optHdr lay) (offsetof_dexOffset lay)
      = of_nat (sizeof_optHdr lay)"
    by (simp add: optHdr_def memset_def load_store_u4)
  with assms(2) show ?thesis by (simp add: unat_of_nat)
qed

lemma optHdr_sentinel:
  assumes "offsetof_dexOffset lay + 4 \<le> sizeof_optHdr lay" and "i < sizeof_optHdr lay"
    and "i < offsetof_dexOffset lay \<or> offsetof_dexOffset lay + 4 \<le> i"
  shows "optHdr lay ! i = 0xff"
  using assms by (simp add: optHdr_def memset_def store_u4_elsewhere)

lemma sys_write_whole:
  assumes "length buf = n" and "n \<le> k" and "file_offset s = 0"
  shows "sys_write (Transferred k) buf n s
         = (int n, s\<lparr>file_bytes := buf @ drop n (file_bytes s), file_offset := n\<rparr>)"
  using assms by (simp add: sys_write_def Let_def min_def)

text \<open>
  Claim C8. When no assertion fails and the one call of \<open>write\<close> transfers the whole
  record, the function returns 0, the size of the record is a multiple of 8, the file
  holds the record from offset 0 and is positioned just past it, the field \<open>dexOffset\<close>
  of the record holds the size of the record, and every byte of the record outside that
  field is \<open>0xff\<close>.
\<close>

theorem empty_header_on_complete_write:
  assumes "offsetof_dexOffset lay + 4 \<le> sizeof_optHdr lay" and "sizeof_optHdr lay < 2 ^ 32"
    and "sizeof_optHdr lay \<le> k"
    and "dexOptCreateEmptyHeader lay (Transferred k) s = Returned r s'"
  shows "r = 0
         \<and> sizeof_optHdr lay mod 8 = 0
         \<and> file_bytes s' = optHdr lay @ drop (sizeof_optHdr lay) (file_bytes s)
         \<and> file_offset s' = sizeof_optHdr lay
         \<and> length (optHdr lay) = sizeof_optHdr lay
         \<and> unat (load_u4 (big_endian lay) (optHdr lay) (offsetof_dexOffset lay)) = sizeof_optHdr lay
         \<and> (\<forall>i < sizeof_optHdr lay.
               i < offsetof_dexOffset lay \<or> offsetof_dexOffset lay + 4 \<le> i
               \<longrightarrow> optHdr lay ! i = 0xff)"
proof -
  from assms(4) have pos: "file_offset s = 0" and al: "sizeof_optHdr lay AND 7 = 0"
    by (auto simp: dexOptCreateEmptyHeader_def split: if_splits)
  from al have m8: "sizeof_optHdr lay mod 8 = 0" by (simp add: nat_and_7)
  note len = length_optHdr [OF assms(1)]
  from assms(4) pos al have "r = 0 \<and> s' = s\<lparr>file_bytes := optHdr lay @ drop (sizeof_optHdr lay) (file_bytes s),
      file_offset := sizeof_optHdr lay\<rparr>"
    by (auto simp: dexOptCreateEmptyHeader_def sys_write_whole [OF len assms(3) pos])
  with m8 len optHdr_dexOffset [OF assms(1,2)] optHdr_sentinel [OF assms(1)]
  show ?thesis by simp
qed

theorem empty_header_on_complete_write_witness:
  "offsetof_dexOffset dalvik_layout + 4 \<le> sizeof_optHdr dalvik_layout
   \<and> sizeof_optHdr dalvik_layout < 2 ^ 32
   \<and> sizeof_optHdr dalvik_layout \<le> 40
   \<and> dexOptCreateEmptyHeader dalvik_layout (Transferred 40) fresh_file
       = Returned 0 \<lparr>errno = 0, file_bytes = optHdr dalvik_layout, file_offset = 40\<rparr>
   \<and> sizeof_optHdr dalvik_layout mod 8 = 0
   \<and> length (optHdr dalvik_layout) = 40
   \<and> unat (load_u4 False (optHdr dalvik_layout) 8) = 40
   \<and> optHdr dalvik_layout ! 0 = 0xff \<and> optHdr dalvik_layout ! 12 = 0xff"
proof -
  have h1: "offsetof_dexOffset dalvik_layout + 4 \<le> sizeof_optHdr dalvik_layout"
    by (simp add: dalvik_layout_def)
  have h2: "sizeof_optHdr dalvik_layout < 2 ^ 32"
    by (simp add: dalvik_layout_def)
  have h3: "sizeof_optHdr dalvik_layout \<le> 40"
    by (simp add: dalvik_layout_def)
  have l: "length (optHdr dalvik_layout) = 40"
    using length_optHdr [OF h1] by (simp add: dalvik_layout_def)
  have a: "(40::nat) AND 7 = 0" by (simp add: nat_and_7)
  have h4: "dexOptCreateEmptyHeader dalvik_layout (Transferred 40) fresh_file
       = Returned 0 \<lparr>errno = 0, file_bytes = optHdr dalvik_layout, file_offset = 40\<rparr>"
    using l a by (simp add: dexOptCreateEmptyHeader_def sys_write_def fresh_file_def dalvik_layout_def)
  from empty_header_on_complete_write [OF h1 h2 h3 h4] h1 h2 h3 h4
  show ?thesis by (simp add: dalvik_layout_def)
qed

text \<open>
  Claim C1. A write that transfers 8 of the 40 bytes, or none, and leaves \<open>errno\<close> at 0:
  the function computes \<open>err = -1\<close> and returns \<open>errno\<close>, which is 0, the value that
  means success.
\<close>

theorem short_write_reported_as_success:
  "dexOptCreateEmptyHeader dalvik_layout (Transferred 8) fresh_file
     = Returned 0 \<lparr>errno = 0, file_bytes = replicate 8 0xff,
                    file_offset = 8\<rparr>
   \<and> dexOptCreateEmptyHeader dalvik_layout (Transferred 0) fresh_file = Returned 0 fresh_file"
proof -
  have a: "(40::nat) AND 7 = 0" by (simp add: nat_and_7)
  show ?thesis using a
  by (simp add: dexOptCreateEmptyHeader_def sys_write_def fresh_file_def dalvik_layout_def
      optHdr_def memset_def store_u4_def u4_bytes_def Let_def)
qed

text \<open>In general a short write returns whatever \<open>errno\<close> held before the call, and a
  failed write returns the error code.\<close>

lemma short_write_returns_errno:
  "file_offset s = 0 \<Longrightarrow> sizeof_optHdr lay AND 7 = 0 \<Longrightarrow> k < sizeof_optHdr lay \<Longrightarrow>
     \<exists>s'. dexOptCreateEmptyHeader lay (Transferred k) s = Returned (errno s) s'
          \<and> errno s' = errno s"
  by (simp add: dexOptCreateEmptyHeader_def sys_write_def Let_def)

lemma failed_write_returns_errno:
  "e \<noteq> 0 \<Longrightarrow> file_offset s = 0 \<Longrightarrow> sizeof_optHdr lay AND 7 = 0 \<Longrightarrow>
     dexOptCreateEmptyHeader lay (Failed e) s = Returned e (s\<lparr>errno := e\<rparr>)"
  by (simp add: dexOptCreateEmptyHeader_def sys_write_def)

end
